theory Spec2Isabelle
  imports Complex_Main "HOL-Library.AList"
begin

section \<open>The material render-state model of \<^verbatim>\<open>src/scene/materials/material.js\<close>\<close>

subsection \<open>Constants imported by the module\<close>

text \<open>
  Modelled from the spec: \<^verbatim>\<open>graphics/constants.js\<close> and \<^verbatim>\<open>scene/constants.js\<close>
  are not among the sources, so the numeric values of the imported constants are unknown.
  The spec calls them closed enumerations; each imported name is a constructor of its
  own (pairwise different, as \<^verbatim>\<open>===\<close> on them requires for the switch and the
  conditional cascade to tell them apart), and one more constructor stands for every other
  value a caller may store in the field or pass to the setter.
\<close>

datatype blendmode =
    BLENDMODE_ZERO
  | BLENDMODE_ONE
  | BLENDMODE_SRC_COLOR
  | BLENDMODE_DST_COLOR
  | BLENDMODE_ONE_MINUS_DST_COLOR
  | BLENDMODE_SRC_ALPHA
  | BLENDMODE_ONE_MINUS_SRC_ALPHA
  | BLENDMODE_OTHER nat

datatype blendequation =
    BLENDEQUATION_ADD
  | BLENDEQUATION_MIN
  | BLENDEQUATION_MAX
  | BLENDEQUATION_OTHER nat

datatype blendtype =
    BLEND_ADDITIVE
  | BLEND_NORMAL
  | BLEND_NONE
  | BLEND_PREMULTIPLIED
  | BLEND_MULTIPLICATIVE
  | BLEND_ADDITIVEALPHA
  | BLEND_MULTIPLICATIVE2X
  | BLEND_SCREEN
  | BLEND_MIN
  | BLEND_MAX
  | BLEND_OTHER nat

datatype cullface =
    CULLFACE_NONE
  | CULLFACE_BACK
  | CULLFACE_FRONT
  | CULLFACE_FRONTANDBACK

subsection \<open>Objects and the store\<close>

text \<open>
  JavaScript objects are shared by reference: a material is compared with
  \<^verbatim>\<open>Material.defaultMaterial\<close> by identity, the two stencil fields may be one
  object, and a mesh instance is reached from the list of every material that holds it.
  Objects therefore live in a store indexed by addresses, one store per class, and a
  field that holds an object or \<^verbatim>\<open>null\<close> is an optional address.
\<close>

type_synonym ref = nat

text \<open>
  The values a shader parameter carries (a number, an array of numbers, a texture), and
  \<^verbatim>\<open>undefined\<close>, which is what a missing argument or a missing property reads as.
\<close>

datatype jsdata =
    Undefined
  | Num real
  | NumArray "real list"
  | Texture ref

text \<open>An entry of the parameter table: \<^verbatim>\<open>{ scopeId: null, data: data }\<close>.\<close>

record parameter =
  scopeId :: "ref option"
  data :: jsdata

text \<open>
  The fields of a \<^verbatim>\<open>Material\<close>, in the order the constructor assigns them. Fields
  written \<^verbatim>\<open>_x\<close> in the source are \<open>priv_x\<close> here, and \<^verbatim>\<open>id\<close> is \<open>mat_id\<close>.
  \<^verbatim>\<open>variants\<close> and \<^verbatim>\<open>parameters\<close> are plain objects used as dictionaries; they are
  association lists of their own properties in insertion order, which is the order
  \<^verbatim>\<open>for ... in\<close> enumerates the keys in (keys that look like array indices, which
  JavaScript enumerates first, are not told apart). What a plain object inherits from
  \<^verbatim>\<open>Object.prototype\<close> is modelled with the lookup, below.
\<close>

record material =
  name :: string
  mat_id :: nat
  priv_shader :: "ref option"
  variants :: "(string \<times> ref) list"
  parameters :: "(string \<times> parameter) list"
  alphaTest :: real
  alphaToCoverage :: bool
  blend :: bool
  blendSrc :: blendmode
  blendDst :: blendmode
  blendEquation :: blendequation
  separateAlphaBlend :: bool
  blendSrcAlpha :: blendmode
  blendDstAlpha :: blendmode
  blendAlphaEquation :: blendequation
  cull :: cullface
  depthTest :: bool
  depthWrite :: bool
  stencilFront :: "ref option"
  stencilBack :: "ref option"
  depthBias :: real
  slopeDepthBias :: real
  redWrite :: bool
  greenWrite :: bool
  blueWrite :: bool
  alphaWrite :: bool
  meshInstances :: "ref list"
  priv_shaderVersion :: nat
  priv_scene :: "ref option"
  priv_dirtyBlend :: bool
  dirty :: bool

text \<open>
  Modelled from the spec: the \<^verbatim>\<open>MeshInstance\<close> class is not among the sources. The
  spec gives a consumer a \<^verbatim>\<open>material\<close> back-reference field, a capability to recompute
  its sort key and an array of cached shader-variant slots. The record has the four members
  \<^verbatim>\<open>material.js\<close> touches: the array \<^verbatim>\<open>_shader\<close>, the field \<^verbatim>\<open>_material\<close>, the
  property \<^verbatim>\<open>material\<close> (a plain field, as the spec has it), and the number of times
  \<^verbatim>\<open>updateKey()\<close> has been called on the object, which is all the model keeps of the
  sort key.
\<close>

record meshInstance =
  mi_shader :: "ref option list"
  mi_priv_material :: "ref option"
  mi_material :: "ref option"
  mi_keyUpdates :: nat

text \<open>
  The program state. Every address holds an object of each class (the stores are total), and
  the addresses from \<open>nextMaterial\<close> and \<open>nextStencil\<close> on are the ones \<^verbatim>\<open>new\<close> has
  not handed out yet. \<open>shaderFailed r\<close> is the \<^verbatim>\<open>failed\<close> flag of the shader at \<open>r\<close>,
  \<open>sceneDirtyBlend r\<close> is \<^verbatim>\<open>layers._dirtyBlend\<close> of the scene at \<open>r\<close>,
  \<open>scopeValue r\<close> is the value last pushed through the uniform handle at \<open>r\<close>,
  \<open>inheritedData k\<close> and \<open>inheritedScopeId k\<close> are the properties \<^verbatim>\<open>data\<close> and
  \<^verbatim>\<open>scopeId\<close> of the member of \<^verbatim>\<open>Object.prototype\<close> named \<open>k\<close> (\<open>None\<close> when the
  member has no such property of its own),
  \<open>defaultMaterial\<close> is the static \<^verbatim>\<open>Material.defaultMaterial\<close> and \<open>id_counter\<close> the
  module variable \<^verbatim>\<open>id\<close>. The contents of a stencil-parameter block are a type
  parameter: \<^verbatim>\<open>StencilParameters\<close> is not among the sources.
\<close>

record 'sp engine =
  materialObjs :: "ref \<Rightarrow> material"
  meshInstanceObjs :: "ref \<Rightarrow> meshInstance"
  stencilObjs :: "ref \<Rightarrow> 'sp"
  shaderFailed :: "ref \<Rightarrow> bool"
  sceneDirtyBlend :: "ref \<Rightarrow> bool"
  scopeValue :: "ref \<Rightarrow> jsdata"
  inheritedData :: "string \<Rightarrow> jsdata option"
  inheritedScopeId :: "string \<Rightarrow> ref option"
  defaultMaterial :: "ref option"
  id_counter :: nat
  nextMaterial :: ref
  nextStencil :: ref

subsection \<open>The blend preset codec\<close>

text \<open>The getter \<^verbatim>\<open>get blendType()\<close>: the cascade of conditionals, in the source's order.\<close>

definition blendType :: "material \<Rightarrow> blendtype" where
  "blendType this =
    (if (\<not> blend this) \<and>
        blendSrc this = BLENDMODE_ONE \<and>
        blendDst this = BLENDMODE_ZERO \<and>
        blendEquation this = BLENDEQUATION_ADD then BLEND_NONE
     else if blend this \<and>
        blendSrc this = BLENDMODE_SRC_ALPHA \<and>
        blendDst this = BLENDMODE_ONE_MINUS_SRC_ALPHA \<and>
        blendEquation this = BLENDEQUATION_ADD then BLEND_NORMAL
     else if blend this \<and>
        blendSrc this = BLENDMODE_ONE \<and>
        blendDst this = BLENDMODE_ONE \<and>
        blendEquation this = BLENDEQUATION_ADD then BLEND_ADDITIVE
     else if blend this \<and>
        blendSrc this = BLENDMODE_SRC_ALPHA \<and>
        blendDst this = BLENDMODE_ONE \<and>
        blendEquation this = BLENDEQUATION_ADD then BLEND_ADDITIVEALPHA
     else if blend this \<and>
        blendSrc this = BLENDMODE_DST_COLOR \<and>
        blendDst this = BLENDMODE_SRC_COLOR \<and>
        blendEquation this = BLENDEQUATION_ADD then BLEND_MULTIPLICATIVE2X
     else if blend this \<and>
        blendSrc this = BLENDMODE_ONE_MINUS_DST_COLOR \<and>
        blendDst this = BLENDMODE_ONE \<and>
        blendEquation this = BLENDEQUATION_ADD then BLEND_SCREEN
     else if blend this \<and>
        blendSrc this = BLENDMODE_ONE \<and>
        blendDst this = BLENDMODE_ONE \<and>
        blendEquation this = BLENDEQUATION_MIN then BLEND_MIN
     else if blend this \<and>
        blendSrc this = BLENDMODE_ONE \<and>
        blendDst this = BLENDMODE_ONE \<and>
        blendEquation this = BLENDEQUATION_MAX then BLEND_MAX
     else if blend this \<and>
        blendSrc this = BLENDMODE_DST_COLOR \<and>
        blendDst this = BLENDMODE_ZERO \<and>
        blendEquation this = BLENDEQUATION_ADD then BLEND_MULTIPLICATIVE
     else if blend this \<and>
        blendSrc this = BLENDMODE_ONE \<and>
        blendDst this = BLENDMODE_ONE_MINUS_SRC_ALPHA \<and>
        blendEquation this = BLENDEQUATION_ADD then BLEND_PREMULTIPLIED
     else BLEND_NORMAL)"

text \<open>
  The \<^verbatim>\<open>switch\<close> of the setter: one equation per \<^verbatim>\<open>case\<close>, in the source's order;
  a value with no \<^verbatim>\<open>case\<close> falls out of the switch and assigns nothing.
\<close>

fun blendType_switch :: "material \<Rightarrow> blendtype \<Rightarrow> material" where
  "blendType_switch this BLEND_NONE =
     this\<lparr>blend := False, blendSrc := BLENDMODE_ONE,
          blendDst := BLENDMODE_ZERO, blendEquation := BLENDEQUATION_ADD\<rparr>"
| "blendType_switch this BLEND_NORMAL =
     this\<lparr>blend := True, blendSrc := BLENDMODE_SRC_ALPHA,
          blendDst := BLENDMODE_ONE_MINUS_SRC_ALPHA, blendEquation := BLENDEQUATION_ADD\<rparr>"
| "blendType_switch this BLEND_PREMULTIPLIED =
     this\<lparr>blend := True, blendSrc := BLENDMODE_ONE,
          blendDst := BLENDMODE_ONE_MINUS_SRC_ALPHA, blendEquation := BLENDEQUATION_ADD\<rparr>"
| "blendType_switch this BLEND_ADDITIVE =
     this\<lparr>blend := True, blendSrc := BLENDMODE_ONE,
          blendDst := BLENDMODE_ONE, blendEquation := BLENDEQUATION_ADD\<rparr>"
| "blendType_switch this BLEND_ADDITIVEALPHA =
     this\<lparr>blend := True, blendSrc := BLENDMODE_SRC_ALPHA,
          blendDst := BLENDMODE_ONE, blendEquation := BLENDEQUATION_ADD\<rparr>"
| "blendType_switch this BLEND_MULTIPLICATIVE2X =
     this\<lparr>blend := True, blendSrc := BLENDMODE_DST_COLOR,
          blendDst := BLENDMODE_SRC_COLOR, blendEquation := BLENDEQUATION_ADD\<rparr>"
| "blendType_switch this BLEND_SCREEN =
     this\<lparr>blend := True, blendSrc := BLENDMODE_ONE_MINUS_DST_COLOR,
          blendDst := BLENDMODE_ONE, blendEquation := BLENDEQUATION_ADD\<rparr>"
| "blendType_switch this BLEND_MULTIPLICATIVE =
     this\<lparr>blend := True, blendSrc := BLENDMODE_DST_COLOR,
          blendDst := BLENDMODE_ZERO, blendEquation := BLENDEQUATION_ADD\<rparr>"
| "blendType_switch this BLEND_MIN =
     this\<lparr>blend := True, blendSrc := BLENDMODE_ONE,
          blendDst := BLENDMODE_ONE, blendEquation := BLENDEQUATION_MIN\<rparr>"
| "blendType_switch this BLEND_MAX =
     this\<lparr>blend := True, blendSrc := BLENDMODE_ONE,
          blendDst := BLENDMODE_ONE, blendEquation := BLENDEQUATION_MAX\<rparr>"
| "blendType_switch this (BLEND_OTHER v) = this"

text \<open>
  Modelled from the spec: \<^verbatim>\<open>updateKey()\<close> of a mesh instance is not among the sources
  (the spec's capability to recompute the sort key). The model records the call.
\<close>

definition updateKey :: "meshInstance \<Rightarrow> meshInstance" where
  "updateKey mi = mi\<lparr>mi_keyUpdates := Suc (mi_keyUpdates mi)\<rparr>"

text \<open>Writing to an object of the store.\<close>

definition modify_material :: "ref \<Rightarrow> (material \<Rightarrow> material) \<Rightarrow> 'sp engine \<Rightarrow> 'sp engine" where
  "modify_material r f s = s\<lparr>materialObjs := (materialObjs s)(r := f (materialObjs s r))\<rparr>"

definition modify_meshInstance ::
  "ref \<Rightarrow> (meshInstance \<Rightarrow> meshInstance) \<Rightarrow> 'sp engine \<Rightarrow> 'sp engine" where
  "modify_meshInstance r f s =
     s\<lparr>meshInstanceObjs := (meshInstanceObjs s)(r := f (meshInstanceObjs s r))\<rparr>"

text \<open>The accessors \<^verbatim>\<open>get shader()\<close> and \<^verbatim>\<open>set shader(shader)\<close>.\<close>

definition shader :: "material \<Rightarrow> ref option" where
  "shader this = priv_shader this"

definition set_shader :: "'sp engine \<Rightarrow> ref \<Rightarrow> ref option \<Rightarrow> 'sp engine" where
  "set_shader s this sh = modify_material this (\<lambda>m. m\<lparr>priv_shader := sh\<rparr>) s"

text \<open>
  \<^verbatim>\<open>_updateMeshInstanceKeys()\<close>: the loop over \<^verbatim>\<open>this.meshInstances\<close>, front to back.
  Nothing in the body changes the list, so the loop visits the elements the list holds on
  entry.
\<close>

definition updateMeshInstanceKeys :: "'sp engine \<Rightarrow> ref \<Rightarrow> 'sp engine" where
  "updateMeshInstanceKeys s this =
     fold (\<lambda>r. modify_meshInstance r updateKey) (meshInstances (materialObjs s this)) s"

text \<open>
  The setter \<^verbatim>\<open>set blendType(type)\<close>: the switch, the dirty-blend signal when the
  \<^verbatim>\<open>blend\<close> flag has changed, and the recomputation of the consumers' keys.
\<close>

definition set_blendType :: "'sp engine \<Rightarrow> ref \<Rightarrow> blendtype \<Rightarrow> 'sp engine" where
  "set_blendType s this type =
    (let prevBlend = blend (materialObjs s this);
         s1 = modify_material this (\<lambda>m. blendType_switch m type) s;
         s2 = (if prevBlend \<noteq> blend (materialObjs s1 this) then
                 (case priv_scene (materialObjs s1 this) of
                    Some sc \<Rightarrow> s1\<lparr>sceneDirtyBlend := (sceneDirtyBlend s1)(sc := True)\<rparr>
                  | None \<Rightarrow> modify_material this (\<lambda>m. m\<lparr>priv_dirtyBlend := True\<rparr>) s1)
               else s1)
     in updateMeshInstanceKeys s2 this)"


subsection \<open>Construction and cloning\<close>

text \<open>
  \<^verbatim>\<open>new Material()\<close>: the object is placed at the next free address, takes the value of
  the module counter as its id (\<^verbatim>\<open>id++\<close>), and every field gets the constructor's value
  (\<open>Material_constructor\<close> is the body of the constructor, given the id).
\<close>

definition Material_constructor :: "nat \<Rightarrow> material" where
  "Material_constructor n =
    \<lparr>name = ''Untitled'',
     mat_id = n,
     priv_shader = None,
     variants = [],
     parameters = [],
     alphaTest = 0,
     alphaToCoverage = False,
     blend = False,
     blendSrc = BLENDMODE_ONE,
     blendDst = BLENDMODE_ZERO,
     blendEquation = BLENDEQUATION_ADD,
     separateAlphaBlend = False,
     blendSrcAlpha = BLENDMODE_ONE,
     blendDstAlpha = BLENDMODE_ZERO,
     blendAlphaEquation = BLENDEQUATION_ADD,
     cull = CULLFACE_BACK,
     depthTest = True,
     depthWrite = True,
     stencilFront = None,
     stencilBack = None,
     depthBias = 0,
     slopeDepthBias = 0,
     redWrite = True,
     greenWrite = True,
     blueWrite = True,
     alphaWrite = True,
     meshInstances = [],
     priv_shaderVersion = 0,
     priv_scene = None,
     priv_dirtyBlend = False,
     dirty = True\<rparr>"

definition new_Material :: "'sp engine \<Rightarrow> ref \<times> 'sp engine" where
  "new_Material s =
    (nextMaterial s,
     s\<lparr>materialObjs := (materialObjs s)(nextMaterial s := Material_constructor (id_counter s)),
       id_counter := Suc (id_counter s),
       nextMaterial := Suc (nextMaterial s)\<rparr>)"

text \<open>
  Modelled from the spec: \<^verbatim>\<open>StencilParameters.clone()\<close> is not among the sources (the
  spec: stencil blocks are copied via their own clone operation). The copy is a new object
  with the contents of the original.
\<close>

definition stencil_clone :: "'sp engine \<Rightarrow> ref \<Rightarrow> ref \<times> 'sp engine" where
  "stencil_clone s r =
    (nextStencil s,
     s\<lparr>stencilObjs := (stencilObjs s)(nextStencil s := stencilObjs s r),
       nextStencil := Suc (nextStencil s)\<rparr>)"

text \<open>
  \<^verbatim>\<open>_cloneInternal(clone)\<close>, in three blocks: the assignments from \<^verbatim>\<open>name\<close> to
  \<^verbatim>\<open>slopeDepthBias\<close>, the two stencil statements, and the four write masks. Each
  block reads \<^verbatim>\<open>this\<close> and \<^verbatim>\<open>clone\<close> in the state the block before it has left.
  \<^verbatim>\<open>clone.shader = this.shader\<close> goes through the two accessors.
\<close>

definition cloneInternal_renderStates :: "'sp engine \<Rightarrow> ref \<Rightarrow> ref \<Rightarrow> 'sp engine" where
  "cloneInternal_renderStates s this clone =
    (let src = materialObjs s this
     in modify_material clone (\<lambda>c. c
               \<lparr>name := name src,
                priv_shader := shader src,
                alphaTest := alphaTest src,
                alphaToCoverage := alphaToCoverage src,
                blend := blend src,
                blendSrc := blendSrc src,
                blendDst := blendDst src,
                blendEquation := blendEquation src,
                separateAlphaBlend := separateAlphaBlend src,
                blendSrcAlpha := blendSrcAlpha src,
                blendDstAlpha := blendDstAlpha src,
                blendAlphaEquation := blendAlphaEquation src,
                cull := cull src,
                depthTest := depthTest src,
                depthWrite := depthWrite src,
                depthBias := depthBias src,
                slopeDepthBias := slopeDepthBias src\<rparr>) s)"

definition cloneInternal_stencil :: "'sp engine \<Rightarrow> ref \<Rightarrow> ref \<Rightarrow> 'sp engine" where
  "cloneInternal_stencil s1 this clone =
    (let s2 = (case stencilFront (materialObjs s1 this) of
                 Some f \<Rightarrow>
                   (case stencil_clone s1 f of
                      (f', t) \<Rightarrow> modify_material clone (\<lambda>c. c\<lparr>stencilFront := Some f'\<rparr>) t)
               | None \<Rightarrow> s1)
     in case stencilBack (materialObjs s2 this) of
          Some b \<Rightarrow>
            if stencilFront (materialObjs s2 this) = stencilBack (materialObjs s2 this)
            then modify_material clone
                   (\<lambda>c. c\<lparr>stencilBack := stencilFront (materialObjs s2 clone)\<rparr>) s2
            else (case stencil_clone s2 b of
                    (b', t) \<Rightarrow> modify_material clone (\<lambda>c. c\<lparr>stencilBack := Some b'\<rparr>) t)
        | None \<Rightarrow> s2)"

definition cloneInternal_writeMasks :: "'sp engine \<Rightarrow> ref \<Rightarrow> ref \<Rightarrow> 'sp engine" where
  "cloneInternal_writeMasks s3 this clone =
    (let src = materialObjs s3 this
     in modify_material clone (\<lambda>c. c
               \<lparr>redWrite := redWrite src,
                greenWrite := greenWrite src,
                blueWrite := blueWrite src,
                alphaWrite := alphaWrite src\<rparr>) s3)"

definition cloneInternal :: "'sp engine \<Rightarrow> ref \<Rightarrow> ref \<Rightarrow> 'sp engine" where
  "cloneInternal s this clone =
     cloneInternal_writeMasks
       (cloneInternal_stencil (cloneInternal_renderStates s this clone) this clone) this clone"

text \<open>\<^verbatim>\<open>clone()\<close> returns the address of the new material.\<close>

definition clone :: "'sp engine \<Rightarrow> ref \<Rightarrow> ref \<times> 'sp engine" where
  "clone s this = (case new_Material s of (c, s1) \<Rightarrow> (c, cloneInternal s1 this c))"

subsection \<open>Update, variants and the parameter table\<close>

text \<open>
  \<^verbatim>\<open>updateUniforms()\<close> and \<^verbatim>\<open>updateShader(device, scene, objDefs)\<close> have empty
  bodies.
\<close>

definition updateUniforms :: "'sp engine \<Rightarrow> ref \<Rightarrow> 'sp engine" where
  "updateUniforms s this = s"

definition updateShader :: "'sp engine \<Rightarrow> ref \<Rightarrow> 'dev \<Rightarrow> 'scene \<Rightarrow> 'defs \<Rightarrow> 'sp engine" where
  "updateShader s this device scene objDefs = s"

text \<open>\<^verbatim>\<open>update()\<close>.\<close>

definition update :: "'sp engine \<Rightarrow> ref \<Rightarrow> 'sp engine" where
  "update s this =
    (let s1 = modify_material this (\<lambda>m. m\<lparr>dirty := True\<rparr>) s
     in case priv_shader (materialObjs s1 this) of
          Some sh \<Rightarrow> s1\<lparr>shaderFailed := (shaderFailed s1)(sh := False)\<rparr>
        | None \<Rightarrow> s1)"

text \<open>\<^verbatim>\<open>clearParameters()\<close> and \<^verbatim>\<open>getParameters()\<close>.\<close>

definition clearParameters :: "'sp engine \<Rightarrow> ref \<Rightarrow> 'sp engine" where
  "clearParameters s this = modify_material this (\<lambda>m. m\<lparr>parameters := []\<rparr>) s"

definition getParameters :: "'sp engine \<Rightarrow> ref \<Rightarrow> (string \<times> parameter) list" where
  "getParameters s this = parameters (materialObjs s this)"

text \<open>
  The inner loop of \<^verbatim>\<open>clearVariants()\<close> and \<^verbatim>\<open>destroy()\<close>: every slot of the mesh
  instance's \<^verbatim>\<open>_shader\<close> array becomes \<^verbatim>\<open>null\<close>.
\<close>

definition clearShaderSlots :: "meshInstance \<Rightarrow> meshInstance" where
  "clearShaderSlots mi = mi\<lparr>mi_shader := map (\<lambda>_. None) (mi_shader mi)\<rparr>"

text \<open>\<^verbatim>\<open>clearVariants()\<close>.\<close>

definition clearVariants :: "'sp engine \<Rightarrow> ref \<Rightarrow> 'sp engine" where
  "clearVariants s this =
    (let s1 = modify_material this (\<lambda>m. m\<lparr>variants := []\<rparr>) s
     in fold (\<lambda>r. modify_meshInstance r clearShaderSlots)
          (meshInstances (materialObjs s1 this)) s1)"

text \<open>
  \<^verbatim>\<open>this.parameters\<close> is a plain object (\<^verbatim>\<open>{}\<close>), so the lookup
  \<^verbatim>\<open>this.parameters[name]\<close> finds the table's own entry under the name and, when there is
  none, the member \<^verbatim>\<open>Object.prototype\<close> defines under that name. The JavaScript runtime
  gives \<^verbatim>\<open>Object.prototype\<close> twelve members: eleven functions, and the accessor
  \<^verbatim>\<open>__proto__\<close>, which reads as \<^verbatim>\<open>Object.prototype\<close> itself. All of them are objects,
  so all are truthy.
\<close>

definition objectPrototypeNames :: "string list" where
  "objectPrototypeNames =
    [''constructor'', ''__defineGetter__'', ''__defineSetter__'', ''hasOwnProperty'',
     ''__lookupGetter__'', ''__lookupSetter__'', ''isPrototypeOf'', ''propertyIsEnumerable'',
     ''toString'', ''valueOf'', ''__proto__'', ''toLocaleString'']"

text \<open>
  What a lookup gives: the table's own entry, the inherited member of that name, or
  \<^verbatim>\<open>undefined\<close>.
\<close>

datatype lookup =
    Own parameter
  | Inherited string
  | NotFound

definition lookupParameter :: "(string \<times> parameter) list \<Rightarrow> string \<Rightarrow> lookup" where
  "lookupParameter ps n =
    (case map_of ps n of
       Some param \<Rightarrow> Own param
     | None \<Rightarrow> if n \<in> set objectPrototypeNames then Inherited n else NotFound)"


text \<open>
  Reading \<^verbatim>\<open>data\<close> and \<^verbatim>\<open>scopeId\<close> from the inherited member named \<open>k\<close>: the
  member's own property, or else the one it inherits from \<^verbatim>\<open>Object.prototype\<close>, or else
  \<^verbatim>\<open>undefined\<close>.
\<close>

definition memberData :: "'sp engine \<Rightarrow> string \<Rightarrow> jsdata" where
  "memberData s k =
    (case inheritedData s k of
       Some v \<Rightarrow> v
     | None \<Rightarrow> (case inheritedData s ''__proto__'' of Some v \<Rightarrow> v | None \<Rightarrow> Undefined))"

definition memberScopeId :: "'sp engine \<Rightarrow> string \<Rightarrow> ref option" where
  "memberScopeId s k =
    (case inheritedScopeId s k of
       Some h \<Rightarrow> Some h
     | None \<Rightarrow> inheritedScopeId s ''__proto__'')"

text \<open>\<^verbatim>\<open>getParameter(name)\<close>: what the lookup gives.\<close>

definition getParameter :: "'sp engine \<Rightarrow> ref \<Rightarrow> string \<Rightarrow> lookup" where
  "getParameter s this n = lookupParameter (parameters (materialObjs s this)) n"

text \<open>
  The first argument of \<^verbatim>\<open>setParameter\<close>: a name, an object \<^verbatim>\<open>{ name, value }\<close>, or
  an array of such arguments.
\<close>

datatype uniform =
    UName string
  | UObject string jsdata
  | UArray "uniform list"

text \<open>
  The property key JavaScript makes of the first argument when it is used as
  \<^verbatim>\<open>this.parameters[name]\<close>: a string is itself, an object is \<^verbatim>\<open>[object Object]\<close>, an
  array is its elements' keys joined by commas.
\<close>

fun join_comma :: "string list \<Rightarrow> string" where
  "join_comma [] = []"
| "join_comma [x] = x"
| "join_comma (x # y # ys) = x @ '','' @ join_comma (y # ys)"

fun toPropertyKey :: "uniform \<Rightarrow> string" where
  "toPropertyKey (UName n) = n"
| "toPropertyKey (UObject n v) = ''[object Object]''"
| "toPropertyKey (UArray xs) = join_comma (map toPropertyKey xs)"

text \<open>
  The last statements of \<^verbatim>\<open>setParameter\<close>, from \<^verbatim>\<open>var param = this.parameters[name]\<close>
  on. What the lookup finds is truthy and gets the new data: the table's own entry, or the
  inherited member, in which case the table gets no entry. When the lookup finds nothing, a
  new entry with no handle is added at the end of the table.
\<close>

definition storeParameter :: "'sp engine \<Rightarrow> ref \<Rightarrow> string \<Rightarrow> jsdata \<Rightarrow> 'sp engine" where
  "storeParameter s this n d =
    (case lookupParameter (parameters (materialObjs s this)) n of
       Own param \<Rightarrow>
         modify_material this
           (\<lambda>m. m\<lparr>parameters := AList.update n (param\<lparr>data := d\<rparr>) (parameters m)\<rparr>) s
     | Inherited k \<Rightarrow> s\<lparr>inheritedData := (inheritedData s)(k \<mapsto> d)\<rparr>
     | NotFound \<Rightarrow>
         modify_material this
           (\<lambda>m. m\<lparr>parameters := AList.update n \<lparr>scopeId = None, data = d\<rparr> (parameters m)\<rparr>) s)"

text \<open>
  \<^verbatim>\<open>setParameter(name, data)\<close>. With no data and an object as the name, an array of
  non-zero length is applied element by element and the call returns; any other object,
  the empty array included, is read through its \<^verbatim>\<open>name\<close> and \<^verbatim>\<open>value\<close> properties,
  which an array does not have (the key is then the string \<^verbatim>\<open>undefined\<close>).
\<close>

fun setParameter :: "'sp engine \<Rightarrow> ref \<Rightarrow> uniform \<Rightarrow> jsdata \<Rightarrow> 'sp engine" where
  "setParameter s this (UName n) d = storeParameter s this n d"
| "setParameter s this (UObject n v) d =
     (if d = Undefined
      then storeParameter s this n v
      else storeParameter s this (toPropertyKey (UObject n v)) d)"
| "setParameter s this (UArray xs) d =
     (if d = Undefined
      then (if xs \<noteq> []
            then fold (\<lambda>u t. setParameter t this u Undefined) xs s
            else storeParameter s this ''undefined'' Undefined)
      else storeParameter s this (toPropertyKey (UArray xs)) d)"

text \<open>
  \<^verbatim>\<open>deleteParameter(name)\<close>. An inherited member passes the test, and \<^verbatim>\<open>delete\<close> then
  finds no property of the table's own to remove.
\<close>

definition deleteParameter :: "'sp engine \<Rightarrow> ref \<Rightarrow> string \<Rightarrow> 'sp engine" where
  "deleteParameter s this n =
    (case lookupParameter (parameters (materialObjs s this)) n of
       Own param \<Rightarrow> modify_material this (\<lambda>m. m\<lparr>parameters := AList.delete n (parameters m)\<rparr>) s
     | Inherited k \<Rightarrow> s
     | NotFound \<Rightarrow> s)"

text \<open>
  \<^verbatim>\<open>setParameters(device, names)\<close>. Modelled from the spec: the device is not among
  the sources; it is the spec's capability \<^verbatim>\<open>resolve(name) -> handle\<close>, passed as the
  function \<open>resolve\<close>, and \<^verbatim>\<open>handle.setValue(value)\<close>, which stores the value at the
  handle. \<open>names\<close> is the list of keys \<^verbatim>\<open>for ... in\<close> enumerates in the argument, or
  \<open>None\<close> when the argument is \<^verbatim>\<open>undefined\<close>; the loop then runs over the table's own
  keys (the twelve members of \<^verbatim>\<open>Object.prototype\<close> are not enumerable).
\<close>

definition setParameters ::
  "'sp engine \<Rightarrow> ref \<Rightarrow> (string \<Rightarrow> ref) \<Rightarrow> string list option \<Rightarrow> 'sp engine" where
  "setParameters s this resolve names =
    (let ks = (case names of
                 None \<Rightarrow> map fst (parameters (materialObjs s this))
               | Some ns \<Rightarrow> ns)
     in fold (\<lambda>paramName t.
          case lookupParameter (parameters (materialObjs t this)) paramName of
            Own param \<Rightarrow>
              (case scopeId param of
                 None \<Rightarrow>
                   (let h = resolve paramName;
                        t1 = modify_material this (\<lambda>m. m\<lparr>parameters :=
                               AList.update paramName (param\<lparr>scopeId := Some h\<rparr>) (parameters m)\<rparr>) t
                    in t1\<lparr>scopeValue := (scopeValue t1)(h := data param)\<rparr>)
               | Some h \<Rightarrow> t\<lparr>scopeValue := (scopeValue t)(h := data param)\<rparr>)
          | Inherited k \<Rightarrow>
              (case memberScopeId t k of
                 None \<Rightarrow>
                   (let h = resolve paramName;
                        t1 = t\<lparr>inheritedScopeId := (inheritedScopeId t)(k \<mapsto> h)\<rparr>
                    in t1\<lparr>scopeValue := (scopeValue t1)(h := memberData t1 k)\<rparr>)
               | Some h \<Rightarrow> t\<lparr>scopeValue := (scopeValue t)(h := memberData t k)\<rparr>)
          | NotFound \<Rightarrow> t) ks s)"


subsection \<open>Destruction\<close>

text \<open>
  The body of the loop of \<^verbatim>\<open>destroy()\<close> for one mesh instance: the shader slots are
  cleared, \<^verbatim>\<open>_material\<close> becomes \<^verbatim>\<open>null\<close>, and \<^verbatim>\<open>material\<close> is assigned the default
  material unless \<^verbatim>\<open>this\<close> is the default material.
\<close>

definition destroy_meshInstance :: "ref \<Rightarrow> ref option \<Rightarrow> meshInstance \<Rightarrow> meshInstance" where
  "destroy_meshInstance this dflt mi =
    (let mi1 = (clearShaderSlots mi)\<lparr>mi_priv_material := None\<rparr>
     in if Some this \<noteq> dflt then mi1\<lparr>mi_material := dflt\<rparr> else mi1)"

text \<open>\<^verbatim>\<open>destroy()\<close>; \<^verbatim>\<open>this.shader = null\<close> goes through the setter.\<close>

definition destroy :: "'sp engine \<Rightarrow> ref \<Rightarrow> 'sp engine" where
  "destroy s this =
    (let s1 = set_shader (modify_material this (\<lambda>m. m\<lparr>variants := []\<rparr>) s) this None
     in fold (\<lambda>r t. modify_meshInstance r (destroy_meshInstance this (defaultMaterial t)) t)
          (meshInstances (materialObjs s1 this)) s1)"

subsection \<open>The preset table of the specification\<close>

text \<open>
  The ten rows of the specification's table, in its order: the preset and the tuple
  (enabled, source factor, destination factor, equation).
\<close>

definition spec_preset_table ::
  "(blendtype \<times> (bool \<times> blendmode \<times> blendmode \<times> blendequation)) list" where
  "spec_preset_table =
    [(BLEND_NONE, (False, BLENDMODE_ONE, BLENDMODE_ZERO, BLENDEQUATION_ADD)),
     (BLEND_NORMAL, (True, BLENDMODE_SRC_ALPHA, BLENDMODE_ONE_MINUS_SRC_ALPHA, BLENDEQUATION_ADD)),
     (BLEND_PREMULTIPLIED, (True, BLENDMODE_ONE, BLENDMODE_ONE_MINUS_SRC_ALPHA, BLENDEQUATION_ADD)),
     (BLEND_ADDITIVE, (True, BLENDMODE_ONE, BLENDMODE_ONE, BLENDEQUATION_ADD)),
     (BLEND_ADDITIVEALPHA, (True, BLENDMODE_SRC_ALPHA, BLENDMODE_ONE, BLENDEQUATION_ADD)),
     (BLEND_MULTIPLICATIVE2X, (True, BLENDMODE_DST_COLOR, BLENDMODE_SRC_COLOR, BLENDEQUATION_ADD)),
     (BLEND_SCREEN, (True, BLENDMODE_ONE_MINUS_DST_COLOR, BLENDMODE_ONE, BLENDEQUATION_ADD)),
     (BLEND_MULTIPLICATIVE, (True, BLENDMODE_DST_COLOR, BLENDMODE_ZERO, BLENDEQUATION_ADD)),
     (BLEND_MIN, (True, BLENDMODE_ONE, BLENDMODE_ONE, BLENDEQUATION_MIN)),
     (BLEND_MAX, (True, BLENDMODE_ONE, BLENDMODE_ONE, BLENDEQUATION_MAX))]"

text \<open>The ten defined presets, and the tuple of a material.\<close>

definition defined_presets :: "blendtype list" where
  "defined_presets = map fst spec_preset_table"

definition blend_tuple :: "material \<Rightarrow> bool \<times> blendmode \<times> blendmode \<times> blendequation" where
  "blend_tuple m = (blend m, blendSrc m, blendDst m, blendEquation m)"

subsection \<open>A program state to run the operations on\<close>

text \<open>
  The state before anything is allocated: the counters are zero, there is no default
  material, no flag is raised, and nothing has been written on a member of
  \<^verbatim>\<open>Object.prototype\<close>. What the unallocated addresses hold does not matter;
  they hold freshly constructed objects.
\<close>

definition engine0 :: "nat engine" where
  "engine0 =
    \<lparr>materialObjs = (\<lambda>r. Material_constructor 0),
     meshInstanceObjs = (\<lambda>r. \<lparr>mi_shader = [], mi_priv_material = None,
                                mi_material = None, mi_keyUpdates = 0\<rparr>),
     stencilObjs = (\<lambda>r. 0),
     shaderFailed = (\<lambda>r. False),
     sceneDirtyBlend = (\<lambda>r. False),
     scopeValue = (\<lambda>r. Undefined),
     inheritedData = (\<lambda>k. None),
     inheritedScopeId = (\<lambda>k. None),
     defaultMaterial = None,
     id_counter = 0,
     nextMaterial = 0,
     nextStencil = 0\<rparr>"

text \<open>
  One material, at address 0, as the constructor leaves it; the same material attached
  to the scene at address 7.
\<close>

definition engine1 :: "nat engine" where
  "engine1 = snd (new_Material engine0)"

definition engine_scene :: "nat engine" where
  "engine_scene = modify_material 0 (\<lambda>m. m\<lparr>priv_scene := Some 7\<rparr>) engine1"

text \<open>
  Two materials, at addresses 0 and 1. The material at 0 has a shader, one cached variant
  and the two consumers at addresses 3 and 5, each with two shader slots and pointing
  back at it. The default material is the material at 1 in \<open>engine_default_other\<close> and
  the material at 0 itself in \<open>engine_default_self\<close>.
\<close>

definition consumer0 :: meshInstance where
  "consumer0 = \<lparr>mi_shader = [Some 2, None], mi_priv_material = Some 0,
                 mi_material = Some 0, mi_keyUpdates = 0\<rparr>"

definition engine_consumers :: "nat engine" where
  "engine_consumers =
     (modify_material 0
        (\<lambda>m. m\<lparr>priv_shader := Some 2, variants := [(''forward'', 2)], meshInstances := [3, 5]\<rparr>)
        (snd (new_Material engine1)))
     \<lparr>meshInstanceObjs := (meshInstanceObjs engine1)(3 := consumer0, 5 := consumer0)\<rparr>"

definition engine_default_other :: "nat engine" where
  "engine_default_other = engine_consumers\<lparr>defaultMaterial := Some 1\<rparr>"

definition engine_default_self :: "nat engine" where
  "engine_default_self = engine_consumers\<lparr>defaultMaterial := Some 0\<rparr>"

text \<open>
  One material, at address 0, with a shader, blending enabled, one parameter, one consumer,
  and one stencil block (at address 4) for both faces.
\<close>

definition engine_stencil :: "nat engine" where
  "engine_stencil =
     (modify_material 0
        (\<lambda>m. m\<lparr>priv_shader := Some 2, blend := True, cull := CULLFACE_NONE,
               stencilFront := Some 4, stencilBack := Some 4,
               parameters := [(''uFoo'', \<lparr>scopeId = None, data = Num 1\<rparr>)],
               meshInstances := [3]\<rparr>)
        engine1)
     \<lparr>stencilObjs := (stencilObjs engine1)(4 := 77), nextStencil := 5\<rparr>"

section \<open>Properties\<close>

subsection \<open>Mesh-instance loops leave the rest of the state alone\<close>

lemma fold_meshInstance_materialObjs:
  "materialObjs (fold (\<lambda>r t. modify_meshInstance r (F t) t) xs s) = materialObjs s"
  by (induction xs arbitrary: s) (simp_all add: modify_meshInstance_def)

lemma fold_meshInstance_sceneDirtyBlend:
  "sceneDirtyBlend (fold (\<lambda>r t. modify_meshInstance r (F t) t) xs s) = sceneDirtyBlend s"
  by (induction xs arbitrary: s) (simp_all add: modify_meshInstance_def)

lemma fold_meshInstance_defaultMaterial:
  "defaultMaterial (fold (\<lambda>r t. modify_meshInstance r (F t) t) xs s) = defaultMaterial s"
  by (induction xs arbitrary: s) (simp_all add: modify_meshInstance_def)

lemma materialObjs_updateMeshInstanceKeys:
  "materialObjs (updateMeshInstanceKeys s this) = materialObjs s"
  unfolding updateMeshInstanceKeys_def by (rule fold_meshInstance_materialObjs)

lemma sceneDirtyBlend_updateMeshInstanceKeys:
  "sceneDirtyBlend (updateMeshInstanceKeys s this) = sceneDirtyBlend s"
  unfolding updateMeshInstanceKeys_def by (rule fold_meshInstance_sceneDirtyBlend)

subsection \<open>The blend preset codec\<close>

text \<open>The material the setter leaves at \<open>this\<close>.\<close>

lemma materialObjs_set_blendType:
  "materialObjs (set_blendType s this P) this =
     (let m = blendType_switch (materialObjs s this) P in
      if blend (materialObjs s this) \<noteq> blend m \<and> priv_scene m = None
      then m\<lparr>priv_dirtyBlend := True\<rparr> else m)"
  by (simp add: set_blendType_def Let_def materialObjs_updateMeshInstanceKeys
      modify_material_def split: option.split)

lemma blendType_dirtyBlend: "blendType (m\<lparr>priv_dirtyBlend := b\<rparr>) = blendType m"
  by (simp add: blendType_def)

lemma defined_presets_cases:
  "P \<in> set defined_presets \<longleftrightarrow>
     P = BLEND_NONE \<or> P = BLEND_NORMAL \<or> P = BLEND_PREMULTIPLIED \<or> P = BLEND_ADDITIVE \<or>
     P = BLEND_ADDITIVEALPHA \<or> P = BLEND_MULTIPLICATIVE2X \<or> P = BLEND_SCREEN \<or>
     P = BLEND_MULTIPLICATIVE \<or> P = BLEND_MIN \<or> P = BLEND_MAX"
  by (simp add: defined_presets_def spec_preset_table_def)

lemma blendType_switch_roundtrip:
  "P \<in> set defined_presets \<Longrightarrow> blendType (blendType_switch m P) = P"
  unfolding defined_presets_cases
  by (elim disjE) (simp_all add: blendType_def)

text \<open>The rows of the specification's table are the tuples the setter's switch writes.\<close>

lemma blend_tuple_switch:
  "(P, tup) \<in> set spec_preset_table \<Longrightarrow> blend_tuple (blendType_switch m P) = tup"
  unfolding spec_preset_table_def list.set insert_iff empty_iff prod.inject
  by (elim disjE conjE) (simp_all add: blend_tuple_def)

text \<open>
  C1. Round trip: for every state, every material \<open>this\<close> and each of the ten defined
  presets \<open>P\<close>, the getter reads \<open>P\<close> back from the material the setter has been applied
  to with \<open>P\<close>.
\<close>

theorem blendType_roundtrip:
  "P \<in> set defined_presets \<Longrightarrow> blendType (materialObjs (set_blendType s this P) this) = P"
  by (simp add: materialObjs_set_blendType Let_def blendType_switch_roundtrip
      blendType_dirtyBlend)

theorem blendType_roundtrip_witness:
  "BLEND_SCREEN \<in> set defined_presets \<and>
   blendType (materialObjs (set_blendType (snd (new_Material engine0)) 0 BLEND_SCREEN) 0)
     = BLEND_SCREEN"
  using blendType_roundtrip [of BLEND_SCREEN "snd (new_Material engine0)" 0]
  by (simp add: defined_presets_cases)

text \<open>
  C2. Fallback: a material whose tuple (blend, blendSrc, blendDst, blendEquation) is none
  of the ten tuples of the preset table reads as the normal preset.
\<close>

theorem blendType_fallback:
  "blend_tuple m \<notin> snd ` set spec_preset_table \<Longrightarrow> blendType m = BLEND_NORMAL"
  by (simp add: blend_tuple_def spec_preset_table_def blendType_def)

theorem blendType_fallback_witness:
  "blend_tuple ((Material_constructor 0)\<lparr>blend := True\<rparr>) \<notin> snd ` set spec_preset_table \<and>
   blendType ((Material_constructor 0)\<lparr>blend := True\<rparr>) = BLEND_NORMAL"
  using blendType_fallback [of "(Material_constructor 0)\<lparr>blend := True\<rparr>"]
  by (simp add: blend_tuple_def spec_preset_table_def Material_constructor_def)

lemma defined_presets_other: "P \<notin> set defined_presets \<longleftrightarrow> (\<exists>v. P = BLEND_OTHER v)"
  by (cases P) (simp_all add: defined_presets_cases)

lemma meshInstances_blendType_switch:
  "meshInstances (blendType_switch m P) = meshInstances m"
  by (cases P) simp_all

lemma priv_scene_blendType_switch:
  "priv_scene (blendType_switch m P) = priv_scene m"
  by (cases P) simp_all

lemma priv_dirtyBlend_blendType_switch:
  "priv_dirtyBlend (blendType_switch m P) = priv_dirtyBlend m"
  by (cases P) simp_all

text \<open>The scene flags the setter leaves, and the materials other than \<open>this\<close>.\<close>

lemma sceneDirtyBlend_set_blendType:
  "sceneDirtyBlend (set_blendType s this P) =
     (let m = blendType_switch (materialObjs s this) P in
      case priv_scene m of
        Some sc \<Rightarrow> if blend (materialObjs s this) \<noteq> blend m
                   then (sceneDirtyBlend s)(sc := True) else sceneDirtyBlend s
      | None \<Rightarrow> sceneDirtyBlend s)"
  by (simp add: set_blendType_def Let_def sceneDirtyBlend_updateMeshInstanceKeys
      modify_material_def split: option.split)

lemma materialObjs_set_blendType_other:
  "materialObjs (set_blendType s this P) r =
     (if r = this then materialObjs (set_blendType s this P) this else materialObjs s r)"
  by (simp add: set_blendType_def Let_def materialObjs_updateMeshInstanceKeys
      modify_material_def split: option.split)

lemma materialObjs_engine1: "materialObjs engine1 0 = Material_constructor 0"
  by (simp add: engine1_def new_Material_def engine0_def)

lemma materialObjs_engine_scene:
  "materialObjs engine_scene 0 = (Material_constructor 0)\<lparr>priv_scene := Some 7\<rparr>"
  by (simp add: engine_scene_def modify_material_def materialObjs_engine1)

text \<open>
  C4. Dirty routing: when the setter changes the value of the \<open>blend\<close> flag of \<open>this\<close>,
  then with a scene attached the scene's dirty-blend flag is set and the material's own
  \<open>_dirtyBlend\<close> keeps its value, and with no scene attached the material's own
  \<open>_dirtyBlend\<close> is set and every scene's flag keeps its value.
\<close>

theorem blendType_dirty_routing:
  assumes "blend (materialObjs (set_blendType s this P) this) \<noteq> blend (materialObjs s this)"
  shows "(priv_scene (materialObjs s this) = Some sc \<longrightarrow>
            sceneDirtyBlend (set_blendType s this P) sc \<and>
            priv_dirtyBlend (materialObjs (set_blendType s this P) this)
              = priv_dirtyBlend (materialObjs s this)) \<and>
         (priv_scene (materialObjs s this) = None \<longrightarrow>
            priv_dirtyBlend (materialObjs (set_blendType s this P) this) \<and>
            sceneDirtyBlend (set_blendType s this P) = sceneDirtyBlend s)"
proof -
  let ?m = "blendType_switch (materialObjs s this) P"
  from assms have flip: "blend (materialObjs s this) \<noteq> blend ?m"
    by (auto simp: materialObjs_set_blendType Let_def split: if_splits)
  show ?thesis
    using flip
    by (simp add: materialObjs_set_blendType sceneDirtyBlend_set_blendType Let_def
        priv_scene_blendType_switch priv_dirtyBlend_blendType_switch)
qed

theorem blendType_dirty_routing_witness:
  "blend (materialObjs (set_blendType engine_scene 0 BLEND_NORMAL) 0)
     \<noteq> blend (materialObjs engine_scene 0) \<and>
   priv_scene (materialObjs engine_scene 0) = Some 7 \<and>
   sceneDirtyBlend (set_blendType engine_scene 0 BLEND_NORMAL) 7 \<and>
   \<not> priv_dirtyBlend (materialObjs (set_blendType engine_scene 0 BLEND_NORMAL) 0) \<and>
   blend (materialObjs (set_blendType engine1 0 BLEND_NORMAL) 0)
     \<noteq> blend (materialObjs engine1 0) \<and>
   priv_scene (materialObjs engine1 0) = None \<and>
   priv_dirtyBlend (materialObjs (set_blendType engine1 0 BLEND_NORMAL) 0) \<and>
   sceneDirtyBlend (set_blendType engine1 0 BLEND_NORMAL) = sceneDirtyBlend engine1"
proof -
  have a: "blend (materialObjs (set_blendType engine_scene 0 BLEND_NORMAL) 0)
             \<noteq> blend (materialObjs engine_scene 0)"
    by (simp add: materialObjs_set_blendType materialObjs_engine_scene
        Material_constructor_def)
  have b: "blend (materialObjs (set_blendType engine1 0 BLEND_NORMAL) 0)
             \<noteq> blend (materialObjs engine1 0)"
    by (simp add: materialObjs_set_blendType materialObjs_engine1 Material_constructor_def)
  have sc: "priv_scene (materialObjs engine_scene 0) = Some 7"
    by (simp add: materialObjs_engine_scene)
  have no: "priv_scene (materialObjs engine1 0) = None"
    by (simp add: materialObjs_engine1 Material_constructor_def)
  have d: "\<not> priv_dirtyBlend (materialObjs engine_scene 0)"
    by (simp add: materialObjs_engine_scene Material_constructor_def)
  from blendType_dirty_routing [OF a, of 7] blendType_dirty_routing [OF b] a b sc no d
  show ?thesis by simp
qed

text \<open>
  C5. A value that is none of the ten defined presets: the setter leaves every material as
  it was (so \<open>blend\<close>, \<open>blendSrc\<close>, \<open>blendDst\<close>, \<open>blendEquation\<close> and the local
  \<open>_dirtyBlend\<close> of \<open>this\<close> keep their values) and leaves every scene's dirty-blend flag
  as it was.
\<close>

theorem blendType_unrecognized:
  "P \<notin> set defined_presets \<Longrightarrow>
     materialObjs (set_blendType s this P) = materialObjs s \<and>
     sceneDirtyBlend (set_blendType s this P) = sceneDirtyBlend s"
proof -
  assume "P \<notin> set defined_presets"
  then obtain v where P: "P = BLEND_OTHER v"
    by (auto simp: defined_presets_other)
  have "materialObjs (set_blendType s this P) r = materialObjs s r" for r
    by (subst materialObjs_set_blendType_other) (simp add: materialObjs_set_blendType P)
  moreover have "sceneDirtyBlend (set_blendType s this P) = sceneDirtyBlend s"
    by (simp add: sceneDirtyBlend_set_blendType P Let_def split: option.split)
  ultimately show ?thesis by auto
qed

theorem blendType_unrecognized_witness:
  "BLEND_OTHER 0 \<notin> set defined_presets \<and>
   materialObjs (set_blendType engine_scene 0 (BLEND_OTHER 0)) = materialObjs engine_scene \<and>
   sceneDirtyBlend (set_blendType engine_scene 0 (BLEND_OTHER 0)) = sceneDirtyBlend engine_scene"
  using blendType_unrecognized [of "BLEND_OTHER 0" engine_scene 0]
  by (simp add: defined_presets_cases)

subsection \<open>Sort keys\<close>

lemma fold_updateKey_count:
  "mi_keyUpdates (meshInstanceObjs (fold (\<lambda>r. modify_meshInstance r updateKey) xs s) r) =
     mi_keyUpdates (meshInstanceObjs s r) + count_list xs r"
  by (induction xs arbitrary: s) (simp_all add: modify_meshInstance_def updateKey_def)

lemma meshInstanceObjs_modify_material:
  "meshInstanceObjs (modify_material r f s) = meshInstanceObjs s"
  by (simp add: modify_material_def)

text \<open>
  C6. For every argument of the setter, recognized or not, and whether or not the
  \<open>blend\<close> flag changes, \<open>updateKey\<close> is called on the mesh instance at \<open>r\<close> once for
  each time \<open>r\<close> occurs in the consumer list of \<open>this\<close>: on every consumer of the list,
  and on no other object.
\<close>

theorem blendType_updates_keys:
  "mi_keyUpdates (meshInstanceObjs (set_blendType s this P) r) =
     mi_keyUpdates (meshInstanceObjs s r) + count_list (meshInstances (materialObjs s this)) r"
  by (simp add: set_blendType_def Let_def updateMeshInstanceKeys_def fold_updateKey_count
      meshInstanceObjs_modify_material modify_material_def meshInstances_blendType_switch
      split: option.split)

subsection \<open>Destruction\<close>

lemma clearShaderSlots_idem: "clearShaderSlots (clearShaderSlots mi) = clearShaderSlots mi"
  by (simp add: clearShaderSlots_def)

lemma destroy_meshInstance_idem:
  "destroy_meshInstance this d (destroy_meshInstance this d mi) = destroy_meshInstance this d mi"
  by (simp add: destroy_meshInstance_def clearShaderSlots_def Let_def)

lemma fold_meshInstance_state:
  "fold (\<lambda>r t. modify_meshInstance r (F t) t) xs s =
     s\<lparr>meshInstanceObjs := meshInstanceObjs (fold (\<lambda>r t. modify_meshInstance r (F t) t) xs s)\<rparr>"
proof (induction xs arbitrary: s)
  case Nil
  show ?case by simp
next
  case (Cons x xs)
  let ?s1 = "modify_meshInstance x (F s) s"
  have "fold (\<lambda>r t. modify_meshInstance r (F t) t) (x # xs) s =
        fold (\<lambda>r t. modify_meshInstance r (F t) t) xs ?s1"
    by simp
  also have "\<dots> = ?s1\<lparr>meshInstanceObjs :=
        meshInstanceObjs (fold (\<lambda>r t. modify_meshInstance r (F t) t) xs ?s1)\<rparr>"
    by (rule Cons.IH)
  also have "\<dots> = s\<lparr>meshInstanceObjs :=
        meshInstanceObjs (fold (\<lambda>r t. modify_meshInstance r (F t) t) xs ?s1)\<rparr>"
    by (simp add: modify_meshInstance_def)
  finally show ?case by simp
qed

lemma fold_meshInstance_idem:
  assumes "\<And>d mi. F d (F d mi) = F d mi"
  shows "meshInstanceObjs (fold (\<lambda>r t. modify_meshInstance r (F (defaultMaterial t)) t) xs s) r =
         (if r \<in> set xs then F (defaultMaterial s) (meshInstanceObjs s r)
          else meshInstanceObjs s r)"
proof (induction xs arbitrary: s)
  case Nil
  show ?case by simp
next
  case (Cons x xs)
  have d: "defaultMaterial (modify_meshInstance x f s) = defaultMaterial s" for f
    by (simp add: modify_meshInstance_def)
  have m: "meshInstanceObjs (modify_meshInstance x f s) q =
           (if q = x then f (meshInstanceObjs s x) else meshInstanceObjs s q)" for f q
    by (simp add: modify_meshInstance_def)
  show ?case
    by (simp add: Cons.IH d m assms)
qed

lemma materialObjs_destroy:
  "materialObjs (destroy s this) =
     (materialObjs s)(this := (materialObjs s this)\<lparr>variants := [], priv_shader := None\<rparr>)"
  by (simp add: destroy_def Let_def fold_meshInstance_materialObjs modify_material_def
      set_shader_def)

lemma defaultMaterial_destroy: "defaultMaterial (destroy s this) = defaultMaterial s"
  by (simp add: destroy_def Let_def fold_meshInstance_defaultMaterial modify_material_def
      set_shader_def)

lemma meshInstanceObjs_destroy:
  "meshInstanceObjs (destroy s this) r =
     (if r \<in> set (meshInstances (materialObjs s this))
      then destroy_meshInstance this (defaultMaterial s) (meshInstanceObjs s r)
      else meshInstanceObjs s r)"
  unfolding destroy_def Let_def
  by (subst fold_meshInstance_idem [where F = "destroy_meshInstance this"])
     (simp_all add: destroy_meshInstance_idem modify_material_def set_shader_def)

lemma destroy_eq:
  "destroy s this =
     s\<lparr>materialObjs := materialObjs (destroy s this),
       meshInstanceObjs := meshInstanceObjs (destroy s this)\<rparr>"
proof -
  let ?s1 = "set_shader (modify_material this (\<lambda>m. m\<lparr>variants := []\<rparr>) s) this None"
  let ?f = "\<lambda>r t. modify_meshInstance r (destroy_meshInstance this (defaultMaterial t)) t"
  let ?xs = "meshInstances (materialObjs ?s1 this)"
  define M where "M = meshInstanceObjs (destroy s this)"
  define N where "N = materialObjs (destroy s this)"
  have d: "destroy s this = fold ?f ?xs ?s1"
    by (simp add: destroy_def Let_def)
  have "fold ?f ?xs ?s1 = ?s1\<lparr>meshInstanceObjs := meshInstanceObjs (fold ?f ?xs ?s1)\<rparr>"
    by (rule fold_meshInstance_state)
  then have e: "destroy s this = ?s1\<lparr>meshInstanceObjs := M\<rparr>"
    unfolding M_def d .
  have "materialObjs ?s1 = N"
    unfolding N_def d by (simp add: fold_meshInstance_materialObjs)
  then have f: "?s1 = s\<lparr>materialObjs := N\<rparr>"
    by (simp add: modify_material_def set_shader_def)
  have "destroy s this = s\<lparr>materialObjs := N, meshInstanceObjs := M\<rparr>"
    by (simp only: e f)
  then show ?thesis
    unfolding M_def N_def .
qed

lemma destroy_idem: "destroy (destroy s this) this = destroy s this"
proof -
  let ?t = "destroy s this"
  have m: "materialObjs (destroy ?t this) = materialObjs ?t"
    by (simp add: materialObjs_destroy [of ?t] materialObjs_destroy [of s])
  have "meshInstanceObjs (destroy ?t this) r = meshInstanceObjs ?t r" for r
    by (simp add: meshInstanceObjs_destroy [of ?t] defaultMaterial_destroy
        materialObjs_destroy [of s] meshInstanceObjs_destroy [of s] destroy_meshInstance_idem)
  then have c: "meshInstanceObjs (destroy ?t this) = meshInstanceObjs ?t"
    by (rule ext)
  have "destroy ?t this = ?t\<lparr>materialObjs := materialObjs ?t,
                              meshInstanceObjs := meshInstanceObjs ?t\<rparr>"
    by (subst destroy_eq) (simp only: m c)
  then show ?thesis by simp
qed

lemma engine_consumers_list: "meshInstances (materialObjs engine_consumers 0) = [3, 5]"
  by (simp add: engine_consumers_def modify_material_def new_Material_def)

lemma engine_consumers_objs:
  "meshInstanceObjs engine_consumers 3 = consumer0"
  "meshInstanceObjs engine_consumers 5 = consumer0"
  by (simp_all add: engine_consumers_def)

text \<open>
  C3, as amended. \<open>destroy\<close> empties the variant cache and clears the shader reference
  of \<open>this\<close>; for every consumer in the list it sets every shader slot and the field
  \<open>_material\<close> to null; and it assigns the default material to the consumer's
  \<open>material\<close> property unless \<open>this\<close> is the default material, in which case it makes
  no assignment to that property.
\<close>

theorem destroy_consumers:
  "variants (materialObjs (destroy s this) this) = [] \<and>
   priv_shader (materialObjs (destroy s this) this) = None \<and>
   (\<forall>r \<in> set (meshInstances (materialObjs s this)).
      mi_shader (meshInstanceObjs (destroy s this) r)
        = replicate (length (mi_shader (meshInstanceObjs s r))) None \<and>
      mi_priv_material (meshInstanceObjs (destroy s this) r) = None \<and>
      mi_material (meshInstanceObjs (destroy s this) r)
        = (if Some this \<noteq> defaultMaterial s then defaultMaterial s
           else mi_material (meshInstanceObjs s r)))"
  by (simp add: materialObjs_destroy meshInstanceObjs_destroy destroy_meshInstance_def
      clearShaderSlots_def Let_def map_replicate_const)

theorem destroy_consumers_witness:
  "set (meshInstances (materialObjs engine_default_other 0)) = {3, 5} \<and>
   defaultMaterial engine_default_other = Some 1 \<and>
   mi_shader (meshInstanceObjs (destroy engine_default_other 0) 3) = [None, None] \<and>
   mi_priv_material (meshInstanceObjs (destroy engine_default_other 0) 3) = None \<and>
   mi_material (meshInstanceObjs (destroy engine_default_other 0) 3) = Some 1 \<and>
   mi_material (meshInstanceObjs (destroy engine_default_other 0) 5) = Some 1 \<and>
   defaultMaterial engine_default_self = Some 0 \<and>
   mi_material (meshInstanceObjs (destroy engine_default_self 0) 5) = Some 0"
  using destroy_consumers [of engine_default_other 0] destroy_consumers [of engine_default_self 0]
  by (simp add: engine_default_other_def engine_default_self_def engine_consumers_list
      engine_consumers_objs consumer0_def)

text \<open>
  C3 as stated fails where \<open>this\<close> is the default material: the consumer at address 3
  points at the material through \<open>_material\<close> before \<open>destroy\<close>, and \<open>_material\<close> is null
  after it. The assignment \<^verbatim>\<open>meshInstance._material = null\<close> comes before the test
  \<^verbatim>\<open>this !== defaultMaterial\<close> and is made for every material.
\<close>

theorem destroy_default_counterexample:
  "defaultMaterial engine_default_self = Some 0 \<and>
   3 \<in> set (meshInstances (materialObjs engine_default_self 0)) \<and>
   mi_priv_material (meshInstanceObjs engine_default_self 3) = Some 0 \<and>
   mi_priv_material (meshInstanceObjs (destroy engine_default_self 0) 3) = None"
  by (simp add: meshInstanceObjs_destroy destroy_meshInstance_def Let_def
      engine_default_self_def engine_consumers_list engine_consumers_objs consumer0_def)

text \<open>
  C10. \<open>destroy\<close> leaves the consumer list of \<open>this\<close> as it was, and a second
  \<open>destroy\<close> changes nothing: the state after it is the state after the first, with the
  variant cache empty and the shader reference null.
\<close>

theorem destroy_keeps_consumer_list:
  "meshInstances (materialObjs (destroy s this) this) = meshInstances (materialObjs s this) \<and>
   destroy (destroy s this) this = destroy s this \<and>
   variants (materialObjs (destroy s this) this) = [] \<and>
   priv_shader (materialObjs (destroy s this) this) = None"
  by (simp add: destroy_idem materialObjs_destroy)

subsection \<open>Cloning\<close>

lemma materialObjs_renderStates:
  "materialObjs (cloneInternal_renderStates s this c) =
     (materialObjs s)(c := (materialObjs s c)
               \<lparr>name := name (materialObjs s this),
                priv_shader := priv_shader (materialObjs s this),
                alphaTest := alphaTest (materialObjs s this),
                alphaToCoverage := alphaToCoverage (materialObjs s this),
                blend := blend (materialObjs s this),
                blendSrc := blendSrc (materialObjs s this),
                blendDst := blendDst (materialObjs s this),
                blendEquation := blendEquation (materialObjs s this),
                separateAlphaBlend := separateAlphaBlend (materialObjs s this),
                blendSrcAlpha := blendSrcAlpha (materialObjs s this),
                blendDstAlpha := blendDstAlpha (materialObjs s this),
                blendAlphaEquation := blendAlphaEquation (materialObjs s this),
                cull := cull (materialObjs s this),
                depthTest := depthTest (materialObjs s this),
                depthWrite := depthWrite (materialObjs s this),
                depthBias := depthBias (materialObjs s this),
                slopeDepthBias := slopeDepthBias (materialObjs s this)\<rparr>)"
  unfolding cloneInternal_renderStates_def Let_def modify_material_def shader_def by simp

lemma stencil_renderStates:
  "stencilObjs (cloneInternal_renderStates s this c) = stencilObjs s"
  "nextStencil (cloneInternal_renderStates s this c) = nextStencil s"
  unfolding cloneInternal_renderStates_def Let_def modify_material_def by simp_all

lemma materialObjs_stencil:
  assumes "this \<noteq> c"
  shows "materialObjs (cloneInternal_stencil s this c) =
     (materialObjs s)(c := (materialObjs s c)
       \<lparr>stencilFront := (case stencilFront (materialObjs s this) of
                           None \<Rightarrow> stencilFront (materialObjs s c)
                         | Some f \<Rightarrow> Some (nextStencil s)),
        stencilBack := (case stencilBack (materialObjs s this) of
                          None \<Rightarrow> stencilBack (materialObjs s c)
                        | Some b \<Rightarrow>
                            (case stencilFront (materialObjs s this) of
                               None \<Rightarrow> Some (nextStencil s)
                             | Some f \<Rightarrow> if f = b then Some (nextStencil s)
                                         else Some (Suc (nextStencil s))))\<rparr>)"
  using assms
  unfolding cloneInternal_stencil_def Let_def modify_material_def stencil_clone_def
  by (auto simp: fun_eq_iff split: option.split)

lemma stencilObjs_stencil:
  assumes "this \<noteq> c"
  shows "stencilObjs (cloneInternal_stencil s this c) =
    (case stencilFront (materialObjs s this) of
       None \<Rightarrow> (case stencilBack (materialObjs s this) of
                  None \<Rightarrow> stencilObjs s
                | Some b \<Rightarrow> (stencilObjs s)(nextStencil s := stencilObjs s b))
     | Some f \<Rightarrow> (case stencilBack (materialObjs s this) of
                  None \<Rightarrow> (stencilObjs s)(nextStencil s := stencilObjs s f)
                | Some b \<Rightarrow>
                    if f = b then (stencilObjs s)(nextStencil s := stencilObjs s f)
                    else (stencilObjs s)(nextStencil s := stencilObjs s f,
                           Suc (nextStencil s) :=
                             ((stencilObjs s)(nextStencil s := stencilObjs s f)) b)))"
  using assms
  unfolding cloneInternal_stencil_def Let_def modify_material_def stencil_clone_def
  by (simp split: option.split)

lemma materialObjs_writeMasks:
  "materialObjs (cloneInternal_writeMasks s this c) =
     (materialObjs s)(c := (materialObjs s c)
               \<lparr>redWrite := redWrite (materialObjs s this),
                greenWrite := greenWrite (materialObjs s this),
                blueWrite := blueWrite (materialObjs s this),
                alphaWrite := alphaWrite (materialObjs s this)\<rparr>)"
  unfolding cloneInternal_writeMasks_def Let_def modify_material_def by simp

lemma stencilObjs_writeMasks:
  "stencilObjs (cloneInternal_writeMasks s this c) = stencilObjs s"
  unfolding cloneInternal_writeMasks_def Let_def modify_material_def by simp

lemma clone_eq:
  "clone s this =
     (nextMaterial s, cloneInternal (snd (new_Material s)) this (nextMaterial s))"
  by (simp add: clone_def new_Material_def)

lemma new_Material_fields:
  "materialObjs (snd (new_Material s)) =
     (materialObjs s)(nextMaterial s := Material_constructor (id_counter s))"
  "stencilObjs (snd (new_Material s)) = stencilObjs s"
  "nextStencil (snd (new_Material s)) = nextStencil s"
  by (simp_all add: new_Material_def)

lemma clone_material:
  assumes "this \<noteq> nextMaterial s"
  shows "materialObjs (snd (clone s this)) (nextMaterial s) =
     (Material_constructor (id_counter s))
       \<lparr>name := name (materialObjs s this),
        priv_shader := priv_shader (materialObjs s this),
        alphaTest := alphaTest (materialObjs s this),
        alphaToCoverage := alphaToCoverage (materialObjs s this),
        blend := blend (materialObjs s this),
        blendSrc := blendSrc (materialObjs s this),
        blendDst := blendDst (materialObjs s this),
        blendEquation := blendEquation (materialObjs s this),
        separateAlphaBlend := separateAlphaBlend (materialObjs s this),
        blendSrcAlpha := blendSrcAlpha (materialObjs s this),
        blendDstAlpha := blendDstAlpha (materialObjs s this),
        blendAlphaEquation := blendAlphaEquation (materialObjs s this),
        cull := cull (materialObjs s this),
        depthTest := depthTest (materialObjs s this),
        depthWrite := depthWrite (materialObjs s this),
        depthBias := depthBias (materialObjs s this),
        slopeDepthBias := slopeDepthBias (materialObjs s this),
        stencilFront := (case stencilFront (materialObjs s this) of
                           None \<Rightarrow> None
                         | Some f \<Rightarrow> Some (nextStencil s)),
        stencilBack := (case stencilBack (materialObjs s this) of
                          None \<Rightarrow> None
                        | Some b \<Rightarrow>
                            (case stencilFront (materialObjs s this) of
                               None \<Rightarrow> Some (nextStencil s)
                             | Some f \<Rightarrow> if f = b then Some (nextStencil s)
                                         else Some (Suc (nextStencil s)))),
        redWrite := redWrite (materialObjs s this),
        greenWrite := greenWrite (materialObjs s this),
        blueWrite := blueWrite (materialObjs s this),
        alphaWrite := alphaWrite (materialObjs s this)\<rparr>"
proof -
  let ?c = "nextMaterial s"
  let ?s0 = "snd (new_Material s)"
  let ?s1 = "cloneInternal_renderStates ?s0 this ?c"
  let ?s2 = "cloneInternal_stencil ?s1 this ?c"
  have src0: "materialObjs ?s0 this = materialObjs s this"
    using assms by (simp add: new_Material_fields)
  have src1: "materialObjs ?s1 this = materialObjs s this"
    using assms by (simp add: materialObjs_renderStates src0)
  have src2: "materialObjs ?s2 this = materialObjs s this"
    using assms by (simp add: materialObjs_stencil src1)
  have c0: "materialObjs ?s0 ?c = Material_constructor (id_counter s)"
    by (simp add: new_Material_fields)
  have sf: "stencilFront (Material_constructor n) = None"
           "stencilBack (Material_constructor n) = None" for n
    by (simp_all add: Material_constructor_def)
  show ?thesis
    unfolding clone_eq snd_conv cloneInternal_def
    unfolding materialObjs_writeMasks src2 fun_upd_same
    unfolding materialObjs_stencil [OF assms] src1 fun_upd_same stencil_renderStates
      new_Material_fields(3)
    unfolding materialObjs_renderStates src0 c0 fun_upd_same
    by (simp add: sf cong: option.case_cong)
qed

lemma clone_source:
  assumes "this \<noteq> nextMaterial s"
  shows "materialObjs (snd (clone s this)) this = materialObjs s this"
  unfolding clone_eq snd_conv cloneInternal_def
  using assms
  by (simp add: materialObjs_writeMasks materialObjs_stencil materialObjs_renderStates
      new_Material_fields)

lemma clone_stencilObjs:
  assumes "this \<noteq> nextMaterial s"
  shows "stencilObjs (snd (clone s this)) =
    (case stencilFront (materialObjs s this) of
       None \<Rightarrow> (case stencilBack (materialObjs s this) of
                  None \<Rightarrow> stencilObjs s
                | Some b \<Rightarrow> (stencilObjs s)(nextStencil s := stencilObjs s b))
     | Some f \<Rightarrow> (case stencilBack (materialObjs s this) of
                  None \<Rightarrow> (stencilObjs s)(nextStencil s := stencilObjs s f)
                | Some b \<Rightarrow>
                    if f = b then (stencilObjs s)(nextStencil s := stencilObjs s f)
                    else (stencilObjs s)(nextStencil s := stencilObjs s f,
                           Suc (nextStencil s) :=
                             ((stencilObjs s)(nextStencil s := stencilObjs s f)) b)))"
proof -
  have src1: "materialObjs (cloneInternal_renderStates (snd (new_Material s)) this (nextMaterial s)) this
               = materialObjs s this"
    using assms by (simp add: materialObjs_renderStates new_Material_fields)
  show ?thesis
    unfolding clone_eq snd_conv cloneInternal_def stencilObjs_writeMasks
      stencilObjs_stencil [OF assms] src1 stencil_renderStates new_Material_fields
    by (rule refl)
qed

lemma clone_scalars:
  assumes "this \<noteq> nextMaterial s"
  shows "name (materialObjs (snd (clone s this)) (nextMaterial s)) = name (materialObjs s this)"
    and "alphaTest (materialObjs (snd (clone s this)) (nextMaterial s)) = alphaTest (materialObjs s this)"
    and "alphaToCoverage (materialObjs (snd (clone s this)) (nextMaterial s)) = alphaToCoverage (materialObjs s this)"
    and "blend (materialObjs (snd (clone s this)) (nextMaterial s)) = blend (materialObjs s this)"
    and "blendSrc (materialObjs (snd (clone s this)) (nextMaterial s)) = blendSrc (materialObjs s this)"
    and "blendDst (materialObjs (snd (clone s this)) (nextMaterial s)) = blendDst (materialObjs s this)"
    and "blendEquation (materialObjs (snd (clone s this)) (nextMaterial s)) = blendEquation (materialObjs s this)"
    and "separateAlphaBlend (materialObjs (snd (clone s this)) (nextMaterial s)) = separateAlphaBlend (materialObjs s this)"
    and "blendSrcAlpha (materialObjs (snd (clone s this)) (nextMaterial s)) = blendSrcAlpha (materialObjs s this)"
    and "blendDstAlpha (materialObjs (snd (clone s this)) (nextMaterial s)) = blendDstAlpha (materialObjs s this)"
    and "blendAlphaEquation (materialObjs (snd (clone s this)) (nextMaterial s)) = blendAlphaEquation (materialObjs s this)"
    and "cull (materialObjs (snd (clone s this)) (nextMaterial s)) = cull (materialObjs s this)"
    and "depthTest (materialObjs (snd (clone s this)) (nextMaterial s)) = depthTest (materialObjs s this)"
    and "depthWrite (materialObjs (snd (clone s this)) (nextMaterial s)) = depthWrite (materialObjs s this)"
    and "depthBias (materialObjs (snd (clone s this)) (nextMaterial s)) = depthBias (materialObjs s this)"
    and "slopeDepthBias (materialObjs (snd (clone s this)) (nextMaterial s)) = slopeDepthBias (materialObjs s this)"
    and "redWrite (materialObjs (snd (clone s this)) (nextMaterial s)) = redWrite (materialObjs s this)"
    and "greenWrite (materialObjs (snd (clone s this)) (nextMaterial s)) = greenWrite (materialObjs s this)"
    and "blueWrite (materialObjs (snd (clone s this)) (nextMaterial s)) = blueWrite (materialObjs s this)"
    and "alphaWrite (materialObjs (snd (clone s this)) (nextMaterial s)) = alphaWrite (materialObjs s this)"
    and "priv_shader (materialObjs (snd (clone s this)) (nextMaterial s)) = priv_shader (materialObjs s this)"
    and "parameters (materialObjs (snd (clone s this)) (nextMaterial s)) = []"
    and "meshInstances (materialObjs (snd (clone s this)) (nextMaterial s)) = []"
    and "dirty (materialObjs (snd (clone s this)) (nextMaterial s))"
  unfolding clone_material [OF assms]
  by (simp_all add: Material_constructor_def)

lemma clone_stencil_fields:
  assumes "this \<noteq> nextMaterial s"
  shows "stencilFront (materialObjs (snd (clone s this)) (nextMaterial s)) =
           (case stencilFront (materialObjs s this) of
              None \<Rightarrow> None
            | Some f \<Rightarrow> Some (nextStencil s))"
    and "stencilBack (materialObjs (snd (clone s this)) (nextMaterial s)) =
           (case stencilBack (materialObjs s this) of
              None \<Rightarrow> None
            | Some b \<Rightarrow>
               (case stencilFront (materialObjs s this) of
                  None \<Rightarrow> Some (nextStencil s)
                | Some f \<Rightarrow> if f = b then Some (nextStencil s)
                            else Some (Suc (nextStencil s))))"
  unfolding clone_material [OF assms]
  by simp_all

text \<open>
  C7. \<open>clone\<close> on an allocated material \<open>this\<close> returns a new material \<open>c\<close> and
  leaves the source as it was. Every render-state field of \<open>c\<close> has the source's value;
  a stencil block of the source is copied into a block with the same contents. The shader
  reference of \<open>c\<close> is the source's, its parameter table and its consumer list are
  empty. When both stencil fields of the source are one object, both stencil fields of
  \<open>c\<close> are one object again, a copy of the source's.
\<close>

theorem clone_properties:
  assumes "this < nextMaterial s" and "clone s this = (c, s')"
  shows "c \<noteq> this \<and>
    materialObjs s' this = materialObjs s this \<and>
    alphaTest (materialObjs s' c) = alphaTest (materialObjs s this) \<and>
    alphaToCoverage (materialObjs s' c) = alphaToCoverage (materialObjs s this) \<and>
    blend (materialObjs s' c) = blend (materialObjs s this) \<and>
    blendSrc (materialObjs s' c) = blendSrc (materialObjs s this) \<and>
    blendDst (materialObjs s' c) = blendDst (materialObjs s this) \<and>
    blendEquation (materialObjs s' c) = blendEquation (materialObjs s this) \<and>
    separateAlphaBlend (materialObjs s' c) = separateAlphaBlend (materialObjs s this) \<and>
    blendSrcAlpha (materialObjs s' c) = blendSrcAlpha (materialObjs s this) \<and>
    blendDstAlpha (materialObjs s' c) = blendDstAlpha (materialObjs s this) \<and>
    blendAlphaEquation (materialObjs s' c) = blendAlphaEquation (materialObjs s this) \<and>
    cull (materialObjs s' c) = cull (materialObjs s this) \<and>
    depthTest (materialObjs s' c) = depthTest (materialObjs s this) \<and>
    depthWrite (materialObjs s' c) = depthWrite (materialObjs s this) \<and>
    depthBias (materialObjs s' c) = depthBias (materialObjs s this) \<and>
    slopeDepthBias (materialObjs s' c) = slopeDepthBias (materialObjs s this) \<and>
    redWrite (materialObjs s' c) = redWrite (materialObjs s this) \<and>
    greenWrite (materialObjs s' c) = greenWrite (materialObjs s this) \<and>
    blueWrite (materialObjs s' c) = blueWrite (materialObjs s this) \<and>
    alphaWrite (materialObjs s' c) = alphaWrite (materialObjs s this) \<and>
    (\<forall>f. stencilFront (materialObjs s this) = Some f \<longrightarrow>
       (\<exists>f'. stencilFront (materialObjs s' c) = Some f' \<and> stencilObjs s' f' = stencilObjs s f)) \<and>
    (stencilFront (materialObjs s this) = None \<longrightarrow> stencilFront (materialObjs s' c) = None) \<and>
    (\<forall>b. stencilBack (materialObjs s this) = Some b \<and> b < nextStencil s \<longrightarrow>
       (\<exists>b'. stencilBack (materialObjs s' c) = Some b' \<and> stencilObjs s' b' = stencilObjs s b)) \<and>
    (stencilBack (materialObjs s this) = None \<longrightarrow> stencilBack (materialObjs s' c) = None) \<and>
    priv_shader (materialObjs s' c) = priv_shader (materialObjs s this) \<and>
    parameters (materialObjs s' c) = [] \<and>
    meshInstances (materialObjs s' c) = [] \<and>
    (\<forall>f. stencilFront (materialObjs s this) = Some f \<and> stencilBack (materialObjs s this) = Some f
       \<longrightarrow> (\<exists>f'. stencilFront (materialObjs s' c) = Some f' \<and>
                  stencilBack (materialObjs s' c) = Some f' \<and>
                  stencilObjs s' f' = stencilObjs s f))"
proof -
  from assms(1) have neq: "this \<noteq> nextMaterial s" by simp
  from assms(2) have c: "c = nextMaterial s"
    by (simp add: clone_eq)
  from assms(2) have s': "s' = snd (clone s this)"
    by simp
  note sc = clone_scalars [OF neq, folded c s']
  note st = clone_stencil_fields [OF neq, folded c s']
  note so = clone_stencilObjs [OF neq, folded s']
  have frt: "\<exists>f'. stencilFront (materialObjs s' c) = Some f' \<and> stencilObjs s' f' = stencilObjs s f"
    if "stencilFront (materialObjs s this) = Some f" for f
    using that by (simp add: st so split: option.split)
  have frt_none: "stencilFront (materialObjs s' c) = None"
    if "stencilFront (materialObjs s this) = None"
    using that by (simp add: st)
  have bck: "\<exists>b'. stencilBack (materialObjs s' c) = Some b' \<and> stencilObjs s' b' = stencilObjs s b"
    if "stencilBack (materialObjs s this) = Some b" and "b < nextStencil s" for b
    using that by (simp add: st so split: option.split)
  have bck_none: "stencilBack (materialObjs s' c) = None"
    if "stencilBack (materialObjs s this) = None"
    using that by (simp add: st)
  have shared: "\<exists>f'. stencilFront (materialObjs s' c) = Some f' \<and>
                  stencilBack (materialObjs s' c) = Some f' \<and>
                  stencilObjs s' f' = stencilObjs s f"
    if "stencilFront (materialObjs s this) = Some f" and "stencilBack (materialObjs s this) = Some f"
    for f
    using that by (simp add: st so)
  have src: "materialObjs s' this = materialObjs s this"
    unfolding s' by (rule clone_source [OF neq])
  from neq c have "c \<noteq> this" by simp
  then show ?thesis
    unfolding sc src
    using frt frt_none bck bck_none shared by blast
qed

lemma engine_stencil_facts:
  "nextMaterial engine_stencil = 1"
  "nextStencil engine_stencil = 5"
  "stencilFront (materialObjs engine_stencil 0) = Some 4"
  "stencilBack (materialObjs engine_stencil 0) = Some 4"
  "blend (materialObjs engine_stencil 0) = True"
  "cull (materialObjs engine_stencil 0) = CULLFACE_NONE"
  "priv_shader (materialObjs engine_stencil 0) = Some 2"
  "stencilObjs engine_stencil 4 = 77"
  by (simp_all add: engine_stencil_def modify_material_def engine1_def new_Material_def
      engine0_def)

theorem clone_properties_witness:
  "(0::nat) < nextMaterial engine_stencil \<and>
   clone engine_stencil 0 = (1, snd (clone engine_stencil 0)) \<and>
   stencilFront (materialObjs engine_stencil 0) = Some 4 \<and>
   stencilBack (materialObjs engine_stencil 0) = Some 4 \<and>
   4 < nextStencil engine_stencil \<and>
   blend (materialObjs (snd (clone engine_stencil 0)) 1) \<and>
   cull (materialObjs (snd (clone engine_stencil 0)) 1) = CULLFACE_NONE \<and>
   priv_shader (materialObjs (snd (clone engine_stencil 0)) 1) = Some 2 \<and>
   parameters (materialObjs (snd (clone engine_stencil 0)) 1) = [] \<and>
   meshInstances (materialObjs (snd (clone engine_stencil 0)) 1) = [] \<and>
   stencilFront (materialObjs (snd (clone engine_stencil 0)) 1) \<noteq> None \<and>
   stencilFront (materialObjs (snd (clone engine_stencil 0)) 1)
     = stencilBack (materialObjs (snd (clone engine_stencil 0)) 1)"
proof -
  have h1: "(0::nat) < nextMaterial engine_stencil"
    by (simp add: engine_stencil_facts)
  have h2: "clone engine_stencil 0 = (1, snd (clone engine_stencil 0))"
    by (simp add: clone_eq engine_stencil_facts)
  note t = clone_properties [OF h1 h2]
  from t have a: "\<exists>f'. stencilFront (materialObjs (snd (clone engine_stencil 0)) 1) = Some f' \<and>
                  stencilBack (materialObjs (snd (clone engine_stencil 0)) 1) = Some f'"
    by (simp add: engine_stencil_facts) blast
  from t have b: "blend (materialObjs (snd (clone engine_stencil 0)) 1) \<and>
     cull (materialObjs (snd (clone engine_stencil 0)) 1) = CULLFACE_NONE \<and>
     priv_shader (materialObjs (snd (clone engine_stencil 0)) 1) = Some 2 \<and>
     parameters (materialObjs (snd (clone engine_stencil 0)) 1) = [] \<and>
     meshInstances (materialObjs (snd (clone engine_stencil 0)) 1) = []"
    by (simp add: engine_stencil_facts)
  from a b h1 h2 show ?thesis
    by (auto simp: engine_stencil_facts)
qed

subsection \<open>The parameter table\<close>












text \<open>
  Under the name of a member of \<^verbatim>\<open>Object.prototype\<close> that the table does not define
  itself, \<open>setParameter\<close> adds no entry: every table stays as it was, and the data is
  written on the inherited member.
\<close>

lemma setParameter_inherited:
  assumes "n \<in> set objectPrototypeNames" and "map_of (parameters (materialObjs s this)) n = None"
  shows "materialObjs (setParameter s this (UName n) d) = materialObjs s"
    and "inheritedData (setParameter s this (UName n) d) n = Some d"
    and "getParameter (setParameter s this (UName n) d) this n = Inherited n"
  using assms by (simp_all add: storeParameter_def lookupParameter_def getParameter_def)





subsection \<open>The dirty flag\<close>

lemma fold_preserves:
  assumes "\<And>x t. x \<in> set xs \<Longrightarrow> Q (f x t) = Q t"
  shows "Q (fold f xs s) = Q s"
  using assms by (induction xs arbitrary: s) simp_all

lemma dirty_modify_material:
  assumes "\<And>m. dirty (f m) = dirty m"
  shows "dirty (materialObjs (modify_material this f s) r) = dirty (materialObjs s r)"
  by (simp add: modify_material_def assms)

lemma dirty_blendType_switch: "dirty (blendType_switch m P) = dirty m"
  by (cases P) simp_all

lemma dirty_set_blendType:
  "dirty (materialObjs (set_blendType s this P) r) = dirty (materialObjs s r)"
  by (subst materialObjs_set_blendType_other)
     (simp add: materialObjs_set_blendType Let_def dirty_blendType_switch)

lemma dirty_set_shader:
  "dirty (materialObjs (set_shader s this sh) r) = dirty (materialObjs s r)"
  by (simp add: set_shader_def dirty_modify_material)

lemma dirty_update:
  "dirty (materialObjs (update s this) r) = (r = this \<or> dirty (materialObjs s r))"
  by (simp add: update_def Let_def modify_material_def split: option.split)

lemma dirty_storeParameter:
  "dirty (materialObjs (storeParameter s this n d) r) = dirty (materialObjs s r)"
  by (simp add: storeParameter_def dirty_modify_material split: lookup.split)

lemma dirty_setParameter:
  "dirty (materialObjs (setParameter s this u d) r) = dirty (materialObjs s r)"
proof (induction s this u d rule: setParameter.induct)
  case (1 s this n d)
  show ?case by (simp add: dirty_storeParameter)
next
  case (2 s this n v d)
  show ?case by (simp add: dirty_storeParameter)
next
  case (3 s this xs d)
  show ?case
  proof (cases "d = Undefined \<and> xs \<noteq> []")
    case True
    then have "dirty (materialObjs (fold (\<lambda>u t. setParameter t this u Undefined) xs s) r)
               = dirty (materialObjs s r)"
      by (intro fold_preserves [where Q = "\<lambda>t. dirty (materialObjs t r)"]) (simp add: "3.IH")
    with True show ?thesis by simp
  next
    case False
    then show ?thesis by (auto simp: dirty_storeParameter)
  qed
qed

lemma dirty_deleteParameter:
  "dirty (materialObjs (deleteParameter s this n) r) = dirty (materialObjs s r)"
  by (simp add: deleteParameter_def dirty_modify_material split: lookup.split)

lemma dirty_clearParameters:
  "dirty (materialObjs (clearParameters s this) r) = dirty (materialObjs s r)"
  by (simp add: clearParameters_def dirty_modify_material)

lemma dirty_clearVariants:
  "dirty (materialObjs (clearVariants s this) r) = dirty (materialObjs s r)"
  by (simp add: clearVariants_def Let_def fold_meshInstance_materialObjs dirty_modify_material)

lemma dirty_setParameters:
  "dirty (materialObjs (setParameters s this resolve names) r) = dirty (materialObjs s r)"
  unfolding setParameters_def Let_def
  by (rule fold_preserves [where Q = "\<lambda>t. dirty (materialObjs t r)"])
     (simp add: modify_material_def Let_def split: option.split lookup.split)

lemma dirty_destroy:
  "dirty (materialObjs (destroy s this) r) = dirty (materialObjs s r)"
  by (simp add: materialObjs_destroy)

lemma dirty_clone:
  "dirty (materialObjs (snd (clone s this)) r) = (r = nextMaterial s \<or> dirty (materialObjs s r))"
  unfolding clone_eq snd_conv cloneInternal_def
  by (simp add: cloneInternal_writeMasks_def cloneInternal_stencil_def
      cloneInternal_renderStates_def stencil_clone_def modify_material_def Let_def
      new_Material_def Material_constructor_def shader_def split: option.split)

text \<open>
  C9. The constructor sets \<open>dirty\<close>, and no operation of the class clears it: a
  material that is dirty is still dirty after \<open>new Material()\<close>, the \<open>shader\<close> and
  \<open>blendType\<close> setters, \<open>updateUniforms\<close>, \<open>updateShader\<close>, \<open>update\<close>, \<open>clone\<close>, \<open>setParameter\<close>, \<open>deleteParameter\<close>,
  \<open>clearParameters\<close>, \<open>clearVariants\<close>, \<open>setParameters\<close> and \<open>destroy\<close>, called on
  any material; the objects \<open>new Material()\<close> and \<open>clone\<close> create are dirty.
\<close>

theorem dirty_invariant:
  assumes "dirty (materialObjs s r)"
  shows "dirty (Material_constructor n) \<and>
         dirty (materialObjs (snd (new_Material s)) r) \<and>
         dirty (materialObjs (snd (new_Material s)) (fst (new_Material s))) \<and>
         dirty (materialObjs (set_shader s this sh) r) \<and>
         dirty (materialObjs (set_blendType s this P) r) \<and>
         dirty (materialObjs (updateUniforms s this) r) \<and>
         dirty (materialObjs (updateShader s this device scene objDefs) r) \<and>
         dirty (materialObjs (update s this) r) \<and>
         dirty (materialObjs (snd (clone s this)) r) \<and>
         dirty (materialObjs (snd (clone s this)) (fst (clone s this))) \<and>
         dirty (materialObjs (setParameter s this u d) r) \<and>
         dirty (materialObjs (deleteParameter s this k) r) \<and>
         dirty (materialObjs (clearParameters s this) r) \<and>
         dirty (materialObjs (clearVariants s this) r) \<and>
         dirty (materialObjs (setParameters s this resolve names) r) \<and>
         dirty (materialObjs (destroy s this) r)"
proof -
  have c: "dirty (Material_constructor n)" for n
    by (simp add: Material_constructor_def)
  have nm: "dirty (materialObjs (snd (new_Material s)) q) = (q = nextMaterial s \<or> dirty (materialObjs s q))"
    for q
    by (simp add: new_Material_def c)
  have fn: "fst (new_Material s) = nextMaterial s"
    by (simp add: new_Material_def)
  have fc: "fst (clone s this) = nextMaterial s"
    by (simp add: clone_eq)
  show ?thesis
    using assms
    by (simp add: c nm fn fc
        dirty_set_shader updateUniforms_def updateShader_def
        dirty_set_blendType dirty_update dirty_clone
        dirty_deleteParameter dirty_clearParameters dirty_clearVariants dirty_setParameters
        dirty_destroy dirty_setParameter del: setParameter.simps)
qed

theorem dirty_invariant_witness:
  "dirty (materialObjs engine_stencil 0) \<and>
   dirty (materialObjs (set_shader engine_stencil 0 None) 0) \<and>
   dirty (materialObjs (set_blendType engine_stencil 0 BLEND_MAX) 0) \<and>
   dirty (materialObjs (update engine_stencil 0) 0) \<and>
   dirty (materialObjs (snd (clone engine_stencil 0)) 0) \<and>
   dirty (materialObjs (snd (clone engine_stencil 0)) 1) \<and>
   dirty (materialObjs (setParameter engine_stencil 0 (UName ''uBar'') (Num 3)) 0) \<and>
   dirty (materialObjs (deleteParameter engine_stencil 0 ''uFoo'') 0) \<and>
   dirty (materialObjs (clearParameters engine_stencil 0) 0) \<and>
   dirty (materialObjs (clearVariants engine_stencil 0) 0) \<and>
   dirty (materialObjs (setParameters engine_stencil 0 (\<lambda>n. 9) None) 0) \<and>
   dirty (materialObjs (destroy engine_stencil 0) 0)"
proof -
  have h: "dirty (materialObjs engine_stencil 0)"
    by (simp add: engine_stencil_def modify_material_def materialObjs_engine1
        Material_constructor_def)
  have c: "fst (clone engine_stencil 0) = 1"
    by (simp add: clone_eq engine_stencil_facts)
  from dirty_invariant [OF h, where this = 0 and sh = None and P = BLEND_MAX
      and u = "UName ''uBar''"
      and d = "Num 3" and k = "''uFoo''" and resolve = "\<lambda>n. 9" and names = None and n = 0
      and device = "()" and scene = "()" and objDefs = "()"]
  show ?thesis
    unfolding c using h by blast
qed

end
